theory Spec2Isabelle
  imports Main "HOL-Library.Word"
begin

section \<open>Values shared with the standard library\<close>

text \<open>
  The client (client.go, errors.go, models.go) is embedded function by function.
  Go's \<open>string\<close> is a \<open>string\<close> here, with the empty list for \<open>""\<close>; Go's \<open>int\<close>
  is \<open>int\<close> wherever the code only compares or stores it, and a 64-bit word where the
  code shifts and multiplies (\<open>time.Duration\<close> is an \<open>int64\<close> of nanoseconds).
  Floating point is not modelled: \<open>float64\<close> is an opaque type.
\<close>

typedecl float64

text \<open>
  What \<open>json.Unmarshal\<close> stores in an \<open>interface{}\<close>. A Go map that may be \<open>nil\<close> is an
  optional partial function; indexing the \<open>nil\<close> map finds nothing, as in Go.
\<close>

datatype json =
    JNull
  | JBool bool
  | JNumber float64
  | JString string
  | JArray "json list"
  | JObject "string \<Rightarrow> json option"

type_synonym gomap = "(string \<Rightarrow> json option) option"

definition mapIndex :: "gomap \<Rightarrow> string \<Rightarrow> json option" where
  "mapIndex m k = (case m of None \<Rightarrow> None | Some f \<Rightarrow> f k)"

text \<open>The type assertion \<open>v.(string)\<close> on the result of indexing a map.\<close>

definition assertString :: "json option \<Rightarrow> string option" where
  "assertString v = (case v of Some (JString s) \<Rightarrow> Some s | _ \<Rightarrow> None)"

text \<open>The type assertion \<open>v.(map[string]interface{})\<close>; the zero value is the \<open>nil\<close> map.\<close>

definition assertMap :: "json option \<Rightarrow> gomap" where
  "assertMap v = (case v of Some (JObject f) \<Rightarrow> Some f | _ \<Rightarrow> None)"

text \<open>The verb \<open>%d\<close> of \<open>fmt.Sprintf\<close> on an \<open>int\<close>: decimal digits, with a minus sign.\<close>

definition digitChar :: "nat \<Rightarrow> char" where
  "digitChar d = ''0123456789'' ! d"

function showNat :: "nat \<Rightarrow> string" where
  "showNat n = (if n < 10 then [digitChar n] else showNat (n div 10) @ [digitChar (n mod 10)])"
  by pat_completeness auto
termination
  by (relation "measure (\<lambda>n. n)") auto

definition showInt :: "int \<Rightarrow> string" where
  "showInt i = (if i < 0 then CHR ''-'' # showNat (nat (- i)) else showNat (nat i))"

section \<open>errors.go\<close>

record ActorHubError =
  Message :: string
  StatusCode :: int
  ResponseData :: gomap
  RequestID :: string

text \<open>\<open>ctx.Err()\<close> once \<open>ctx.Done()\<close> is closed.\<close>

datatype ctx_error = Canceled | DeadlineExceeded

text \<open>
  The dynamic types an \<open>error\<close> of this package can have. \<open>RateLimitError\<close> carries
  \<open>RetryAfter\<close>, \<open>ValidationError\<close> carries \<open>Errors\<close>; \<open>BaseError\<close> is a bare
  \<open>*ActorHubError\<close>; \<open>Errorf msg cause\<close> is \<open>fmt.Errorf(msg + ": %w", cause)\<close> with the
  cause kept as text; \<open>ContextError\<close> is the value of \<open>ctx.Err()\<close>.
\<close>

datatype error =
    AuthenticationError ActorHubError
  | RateLimitError ActorHubError int
  | ValidationError ActorHubError gomap
  | NotFoundError ActorHubError
  | ServerError ActorHubError
  | BaseError ActorHubError
  | Errorf string string
  | ContextError ctx_error

definition NewAuthenticationError :: "string \<Rightarrow> string \<Rightarrow> error" where
  "NewAuthenticationError message requestID =
     (let message = (if message = [] then ''Invalid or missing API key'' else message)
      in AuthenticationError
           \<lparr>Message = message, StatusCode = 401, ResponseData = None, RequestID = requestID\<rparr>)"

definition NewRateLimitError :: "string \<Rightarrow> int \<Rightarrow> string \<Rightarrow> error" where
  "NewRateLimitError message retryAfter requestID =
     (let message = (if message = [] then ''Rate limit exceeded'' else message)
      in RateLimitError
           \<lparr>Message = message, StatusCode = 429, ResponseData = None, RequestID = requestID\<rparr>
           retryAfter)"

definition NewValidationError :: "string \<Rightarrow> gomap \<Rightarrow> string \<Rightarrow> error" where
  "NewValidationError message errors requestID =
     (let message = (if message = [] then ''Validation error'' else message)
      in ValidationError
           \<lparr>Message = message, StatusCode = 422, ResponseData = None, RequestID = requestID\<rparr>
           errors)"

definition NewNotFoundError :: "string \<Rightarrow> string \<Rightarrow> error" where
  "NewNotFoundError message requestID =
     (let message = (if message = [] then ''Resource not found'' else message)
      in NotFoundError
           \<lparr>Message = message, StatusCode = 404, ResponseData = None, RequestID = requestID\<rparr>)"

definition NewServerError :: "string \<Rightarrow> int \<Rightarrow> string \<Rightarrow> error" where
  "NewServerError message statusCode requestID =
     (let message = (if message = [] then ''Server error'' else message)
      in ServerError
           \<lparr>Message = message, StatusCode = statusCode, ResponseData = None,
            RequestID = requestID\<rparr>)"

section \<open>models.go: the request structs the wrappers inspect\<close>

record VerifyRequest =
  ImageURL :: string
  ImageBase64 :: string
  IncludeLicenseOptions :: bool

record ConsentCheckRequest =
  ImageURL :: string
  ImageBase64 :: string
  FaceEmbedding :: "float64 list"
  Platform :: string
  IntendedUse :: string
  Region :: string


section \<open>client.go: the client, the wire and the environment\<close>

definition Version :: string where
  "Version = ''0.1.0''"

record Client =
  apiKey :: string
  baseURL :: string
  maxRetries :: int

text \<open>
  An \<open>http.Request\<close> as the client builds it: the header is a map from the name the
  source writes to the value set, the body is absent when \<open>reqBody\<close> is \<open>nil\<close>.
\<close>

record http_request =
  Method :: string
  URL :: string
  Header :: "string \<Rightarrow> string option"
  Body :: "string option"

text \<open>
  An \<open>http.Response\<close> as the client reads it. \<open>RespBody\<close> is what \<open>io.ReadAll\<close> yields:
  \<open>Inl\<close> the read error, \<open>Inr\<close> the bytes.
\<close>

record http_response =
  RespStatusCode :: int
  RespHeader :: "string \<Rightarrow> string option"
  RespBody :: "string + string"

text \<open>\<open>Header.Get\<close>: the empty string when the header is absent.\<close>

definition headerGet :: "(string \<Rightarrow> string option) \<Rightarrow> string \<Rightarrow> string" where
  "headerGet h k = (case h k of None \<Rightarrow> [] | Some v \<Rightarrow> v)"

text \<open>
  Everything the client calls that lives outside the repository is a field of the
  environment: the JSON codec, \<open>strconv.Atoi\<close>, the request constructor, the transport
  and the caller's context.
  \<^item> \<open>jsonMarshal b\<close>: \<open>Inl\<close> the error, \<open>Inr\<close> the bytes;
  \<^item> \<open>newRequestErr method url\<close>: the error of \<open>http.NewRequestWithContext\<close>, if any;
  \<^item> \<open>httpDo n req\<close>: the reply of \<open>httpClient.Do\<close> to the request sent after \<open>n\<close>
    earlier ones, \<open>Inl\<close> a transport error;
  \<^item> \<open>jsonUnmarshalMap bytes\<close>: the map \<open>json.Unmarshal\<close> leaves in \<open>errResp\<close> (its error is
    dropped by the code);
  \<^item> \<open>jsonUnmarshal bytes v\<close>: the error of decoding into the destination and the
    destination afterwards;
  \<^item> \<open>atoi\<close>: the value and the error of \<open>strconv.Atoi\<close>;
  \<^item> \<open>ctxDoneFirst k d\<close>: whether the \<open>select\<close> of the backoff wait number \<open>k\<close>, with a
    timer of \<open>d\<close> nanoseconds, takes the \<open>ctx.Done()\<close> case;
  \<^item> \<open>ctxErr\<close>: the value of \<open>ctx.Err()\<close> then.
\<close>

record ('b, 'r) world =
  jsonMarshal :: "'b \<Rightarrow> string + string"
  newRequestErr :: "string \<Rightarrow> string \<Rightarrow> string option"
  httpDo :: "nat \<Rightarrow> http_request \<Rightarrow> string + http_response"
  jsonUnmarshalMap :: "string \<Rightarrow> gomap"
  jsonUnmarshal :: "string \<Rightarrow> 'r \<Rightarrow> string option \<times> 'r"
  atoi :: "string \<Rightarrow> int \<times> string option"
  ctxDoneFirst :: "nat \<Rightarrow> 64 word \<Rightarrow> bool"
  ctxErr :: ctx_error

text \<open>
  What a call has done so far: the requests handed to the transport, the outcome of
  every \<open>doRequestOnce\<close>, and every backoff timer armed with whether the context won.
\<close>

record trace =
  sent :: "http_request list"
  attempts :: "error option list"
  timers :: "(64 word \<times> bool) list"

section \<open>client.go: handleResponse\<close>

text \<open>
  The idiom every error branch repeats:
  \<^verbatim>\<open>message := default; if detail, ok := errResp["detail"].(string); ok { message = detail }\<close>
\<close>

definition detailOr :: "gomap \<Rightarrow> string \<Rightarrow> string" where
  "detailOr errResp dflt =
     (case assertString (mapIndex errResp ''detail'') of None \<Rightarrow> dflt | Some detail \<Rightarrow> detail)"

text \<open>
  \<open>handleResponse\<close> returns the error (\<open>None\<close> for \<open>nil\<close>) and the destination
  \<open>result\<close> afterwards; \<open>None\<close> as destination is the \<open>nil\<close> interface.
\<close>

definition handleResponse ::
  "('b, 'r) world \<Rightarrow> http_response \<Rightarrow> 'r option \<Rightarrow> error option \<times> 'r option" where
  "handleResponse w resp result =
     (let requestID = headerGet (RespHeader resp) ''X-Request-ID'' in
      case RespBody resp of
        Inl e \<Rightarrow> (Some (Errorf ''failed to read response body'' e), result)
      | Inr respBody \<Rightarrow>
          (let errResp = jsonUnmarshalMap w respBody in
          if RespStatusCode resp = 401 then
            (Some (NewAuthenticationError (detailOr errResp ''Invalid or missing API key'')
                     requestID), result)
          else if RespStatusCode resp = 404 then
            (Some (NewNotFoundError (detailOr errResp ''Resource not found'') requestID), result)
          else if RespStatusCode resp = 422 then
            (Some (NewValidationError (detailOr errResp ''Validation error'')
                     (assertMap (mapIndex errResp ''errors'')) requestID), result)
          else if RespStatusCode resp = 429 then
            (let ra = headerGet (RespHeader resp) ''Retry-After'';
                 retryAfter = (if ra \<noteq> [] then fst (atoi w ra) else 0)
             in (Some (NewRateLimitError (detailOr errResp ''Rate limit exceeded'') retryAfter
                         requestID), result))
          else if RespStatusCode resp \<ge> 500 then
            (Some (NewServerError
                     (detailOr errResp (''Server error: '' @ showInt (RespStatusCode resp)))
                     (RespStatusCode resp) requestID), result)
          else if RespStatusCode resp \<ge> 400 then
            (Some (BaseError
                     \<lparr>Message = detailOr errResp (''API error: '' @ showInt (RespStatusCode resp)),
                      StatusCode = RespStatusCode resp, ResponseData = errResp,
                      RequestID = requestID\<rparr>), result)
          else
            (case result of
               None \<Rightarrow> (None, result)
             | Some v \<Rightarrow>
                 if length respBody > 0 then
                   (case jsonUnmarshal w respBody v of
                      (Some e, v') \<Rightarrow> (Some (Errorf ''failed to unmarshal response'' e), Some v')
                    | (None, v') \<Rightarrow> (None, Some v'))
                 else (None, result))))"

section \<open>client.go: doRequestOnce\<close>

text \<open>The request \<open>doRequestOnce\<close> builds, with the three headers it sets.\<close>

definition buildRequest :: "Client \<Rightarrow> string \<Rightarrow> string \<Rightarrow> string option \<Rightarrow> http_request" where
  "buildRequest c method reqURL reqBody =
     \<lparr>Method = method, URL = reqURL,
      Header = (((Map.empty(''X-API-Key'' \<mapsto> apiKey c))
                   (''Content-Type'' \<mapsto> ''application/json''))
                   (''User-Agent'' \<mapsto> ''actorhub-go/'' @ Version)),
      Body = reqBody\<rparr>"

text \<open>The first block of \<open>doRequestOnce\<close>: \<open>reqBody\<close> stays \<open>nil\<close> when \<open>body\<close> is.\<close>

definition marshalBody :: "('b, 'r) world \<Rightarrow> 'b option \<Rightarrow> string + string option" where
  "marshalBody w body =
     (case body of
        None \<Rightarrow> Inr None
      | Some b \<Rightarrow> (case jsonMarshal w b of Inl e \<Rightarrow> Inl e | Inr jsonBody \<Rightarrow> Inr (Some jsonBody)))"

definition doRequestOnce ::
  "Client \<Rightarrow> ('b, 'r) world \<Rightarrow> string \<Rightarrow> string \<Rightarrow> 'b option \<Rightarrow> 'r option \<Rightarrow> trace
     \<Rightarrow> error option \<times> 'r option \<times> trace" where
  "doRequestOnce c w method path body result s =
     (let reqURL = baseURL c @ path in
      case marshalBody w body of
        Inl e \<Rightarrow> (Some (Errorf ''failed to marshal request body'' e), result, s)
      | Inr reqBody \<Rightarrow>
          (case newRequestErr w method reqURL of
             Some e \<Rightarrow> (Some (Errorf ''failed to create request'' e), result, s)
           | None \<Rightarrow>
               (let req = buildRequest c method reqURL reqBody;
                    s1 = s\<lparr>sent := sent s @ [req]\<rparr>
                in (case httpDo w (length (sent s)) req of
                      Inl e \<Rightarrow> (Some (Errorf ''failed to send request'' e), result, s1)
                    | Inr resp \<Rightarrow>
                        (case handleResponse w resp result of
                           (err, result') \<Rightarrow> (err, result', s1))))))"

section \<open>client.go: doRequest\<close>

definition Second :: "64 word" where
  "Second = 1000000000"

text \<open>
  Lines 102 to 105: \<open>time.Duration(1<<attempt) * time.Second\<close>, capped at ten seconds by a
  signed comparison. The shift and the product are \<open>int64\<close> operations and wrap.
\<close>

definition backoff :: "int \<Rightarrow> 64 word" where
  "backoff attempt =
     (let waitTime = push_bit (nat attempt) (1 :: 64 word) * Second
      in if sint waitTime > sint (10 * Second) then 10 * Second else waitTime)"

text \<open>The type switch \<open>case *RateLimitError, *ServerError\<close>.\<close>

fun isRetryable :: "error \<Rightarrow> bool" where
  "isRetryable (RateLimitError _ _) = True"
| "isRetryable (ServerError _) = True"
| "isRetryable _ = False"

text \<open>
  The \<open>for\<close> loop of \<open>doRequest\<close>, entered with the loop variable \<open>attempt\<close> and the
  local \<open>lastErr\<close>. Every outcome of \<open>doRequestOnce\<close> and every timer is logged.
\<close>

function doRequest_loop ::
  "Client \<Rightarrow> ('b, 'r) world \<Rightarrow> string \<Rightarrow> string \<Rightarrow> 'b option \<Rightarrow> int \<Rightarrow> error option
     \<Rightarrow> 'r option \<Rightarrow> trace \<Rightarrow> error option \<times> 'r option \<times> trace" where
  "doRequest_loop c w method path body attempt lastErr result s =
     (if attempt < maxRetries c then
        (case doRequestOnce c w method path body result s of
           (err, result1, s1) \<Rightarrow>
             let s2 = s1\<lparr>attempts := attempts s1 @ [err]\<rparr> in
             (case err of
                None \<Rightarrow> (None, result1, s2)
              | Some e \<Rightarrow>
                  if isRetryable e then
                    (let waitTime = backoff attempt;
                         ctxDone = ctxDoneFirst w (length (timers s2)) waitTime;
                         s3 = s2\<lparr>timers := timers s2 @ [(waitTime, ctxDone)]\<rparr>
                     in if ctxDone then (Some (ContextError (ctxErr w)), result1, s3)
                        else doRequest_loop c w method path body (attempt + 1) (Some e) result1 s3)
                  else (Some e, result1, s2)))
      else (lastErr, result, s))"
  by pat_completeness auto
termination
  by (relation "measure (\<lambda>(c, w, method, path, body, attempt, lastErr, result, s).
                           nat (maxRetries c - attempt))") auto

definition doRequest ::
  "Client \<Rightarrow> ('b, 'r) world \<Rightarrow> string \<Rightarrow> string \<Rightarrow> 'b option \<Rightarrow> 'r option \<Rightarrow> trace
     \<Rightarrow> error option \<times> 'r option \<times> trace" where
  "doRequest c w method path body result s =
     doRequest_loop c w method path body 0 None result s"

section \<open>client.go: the wrappers with local checks\<close>

text \<open>
  A wrapper returns the response pointer (\<open>None\<close> for \<open>nil\<close>), the error and the trace.
  The response structs are not inspected by the client: their type is a parameter and
  \<open>zero\<close> is the zero value of \<open>var result\<close>. \<open>req\<close> is the struct the caller's pointer
  refers to; a \<open>nil\<close> pointer, on which the code panics at the first field access, is
  not a value of this type.
\<close>

definition Verify ::
  "Client \<Rightarrow> (VerifyRequest, 'r) world \<Rightarrow> 'r \<Rightarrow> VerifyRequest \<Rightarrow> trace
     \<Rightarrow> 'r option \<times> error option \<times> trace" where
  "Verify c w zero req s =
     (if VerifyRequest.ImageURL req = [] \<and> VerifyRequest.ImageBase64 req = [] then
        (None, Some (NewValidationError ''Must provide image_url or image_base64'' None []), s)
      else
        (case doRequest c w ''POST'' ''/api/v1/identity/verify'' (Some req) (Some zero) s of
           (Some err, result, s') \<Rightarrow> (None, Some err, s')
         | (None, result, s') \<Rightarrow> (result, None, s')))"

definition CheckConsent ::
  "Client \<Rightarrow> (ConsentCheckRequest, 'r) world \<Rightarrow> 'r \<Rightarrow> ConsentCheckRequest \<Rightarrow> trace
     \<Rightarrow> 'r option \<times> error option \<times> trace" where
  "CheckConsent c w zero req s =
     (if ConsentCheckRequest.ImageURL req = [] \<and> ConsentCheckRequest.ImageBase64 req = []
         \<and> length (FaceEmbedding req) = 0 then
        (None,
         Some (NewValidationError ''Must provide image_url, image_base64, or face_embedding''
                 None []), s)
      else
        (case doRequest c w ''POST'' ''/api/v1/consent/check'' (Some req) (Some zero) s of
           (Some err, result, s') \<Rightarrow> (None, Some err, s')
         | (None, result, s') \<Rightarrow> (result, None, s')))"


section \<open>client.go: the constructor and its options\<close>

text \<open>
  The transport handle and its timeout belong to the environment, so the options that
  only touch them (\<open>WithTimeout\<close>, \<open>WithHTTPClient\<close>) leave this record alone.
\<close>

definition DefaultBaseURL :: string where
  "DefaultBaseURL = ''https://api.actorhub.ai''"

definition DefaultMaxRetries :: int where
  "DefaultMaxRetries = 3"

definition WithMaxRetries :: "int \<Rightarrow> Client \<Rightarrow> Client" where
  "WithMaxRetries n c = c\<lparr>maxRetries := n\<rparr>"

definition NewClient :: "string \<Rightarrow> (Client \<Rightarrow> Client) list \<Rightarrow> Client" where
  "NewClient key opts =
     fold (\<lambda>opt c. opt c) opts
       \<lparr>apiKey = key, baseURL = DefaultBaseURL, maxRetries = DefaultMaxRetries\<rparr>"

section \<open>Reading a trace\<close>

text \<open>What a call added to each log, given the trace before and after it.\<close>

definition attemptsOf :: "trace \<Rightarrow> trace \<Rightarrow> error option list" where
  "attemptsOf s s' = drop (length (attempts s)) (attempts s')"

definition timersOf :: "trace \<Rightarrow> trace \<Rightarrow> (64 word \<times> bool) list" where
  "timersOf s s' = drop (length (timers s)) (timers s')"

definition sentOf :: "trace \<Rightarrow> trace \<Rightarrow> http_request list" where
  "sentOf s s' = drop (length (sent s)) (sent s')"

text \<open>An attempt's outcome that the type switch sends to the backoff branch.\<close>

fun retryableOutcome :: "error option \<Rightarrow> bool" where
  "retryableOutcome None = False"
| "retryableOutcome (Some e) = isRetryable e"

section \<open>Concrete environments\<close>

text \<open>
  A stub server: the \<open>n\<close>-th request gets \<open>reply n\<close>, the \<open>k\<close>-th backoff wait is cut
  short by the context when \<open>cancel k\<close>; bodies marshal to \<open>{}\<close>, error bodies do not parse,
  decoding a success body leaves the destination as it is, and no header value is a
  number.
\<close>

definition stubWorld ::
  "(nat \<Rightarrow> string + http_response) \<Rightarrow> (nat \<Rightarrow> bool) \<Rightarrow> ('b, 'r) world" where
  "stubWorld reply cancel =
     \<lparr>jsonMarshal = (\<lambda>_. Inr ''{}''),
      newRequestErr = (\<lambda>_ _. None),
      httpDo = (\<lambda>n _. reply n),
      jsonUnmarshalMap = (\<lambda>_. None),
      jsonUnmarshal = (\<lambda>_ v. (None, v)),
      atoi = (\<lambda>_. (0, Some ''invalid syntax'')),
      ctxDoneFirst = (\<lambda>k _. cancel k),
      ctxErr = Canceled\<rparr>"

definition stubResponse :: "int \<Rightarrow> string \<Rightarrow> http_response" where
  "stubResponse status bytes =
     \<lparr>RespStatusCode = status, RespHeader = Map.empty, RespBody = Inr bytes\<rparr>"

definition emptyTrace :: trace where
  "emptyTrace = \<lparr>sent = [], attempts = [], timers = []\<rparr>"

text \<open>Replies and cancellation patterns for the stub server.\<close>

definition alwaysStatus :: "int \<Rightarrow> nat \<Rightarrow> string + http_response" where
  "alwaysStatus status n = Inr (stubResponse status [])"

definition refused :: "nat \<Rightarrow> string + http_response" where
  "refused n = Inl ''connection refused''"

definition okBody :: "nat \<Rightarrow> string + http_response" where
  "okBody n = Inr (stubResponse 200 ''{'')"

definition never :: "nat \<Rightarrow> bool" where
  "never k = False"

definition atWait :: "nat \<Rightarrow> nat \<Rightarrow> bool" where
  "atWait j k = (k = j)"

text \<open>A codec that rejects every value, and a request to purchase a licence.\<close>

definition failingMarshal :: "'b \<Rightarrow> string + string" where
  "failingMarshal b = Inl ''json: unsupported value: NaN''"

definition failingUnmarshal :: "string \<Rightarrow> 'r \<Rightarrow> string option \<times> 'r" where
  "failingUnmarshal bytes v = (Some ''unexpected end of JSON input'', v)"


text \<open>A server that answers 503 to its first \<open>k\<close> requests and 200 afterwards.\<close>

definition failsThenOk :: "nat \<Rightarrow> nat \<Rightarrow> string + http_response" where
  "failsThenOk k n = (if n < k then Inr (stubResponse 503 []) else Inr (stubResponse 200 []))"

text \<open>
  What \<open>strconv.Atoi\<close> returns for a decimal numeral above the largest \<open>int64\<close>, such as
  \<open>99999999999999999999\<close>: the largest value, with a range error.
\<close>

definition saturatedAtoi :: "string \<Rightarrow> int \<times> string option" where
  "saturatedAtoi s = (9223372036854775807, Some ''value out of range'')"

section \<open>Auxiliary facts about the retry loop\<close>

declare doRequest_loop.simps [simp del]

lemma doRequestOnce_logs:
  assumes "doRequestOnce c w method path body result s = (err, result1, s1)"
  shows "attempts s1 = attempts s \<and> timers s1 = timers s"
  using assms
  by (auto simp: doRequestOnce_def Let_def split: sum.splits option.splits prod.splits)

text \<open>One iteration of the loop, branch by branch.\<close>

lemma loop_exit:
  "\<not> attempt < maxRetries c \<Longrightarrow>
   doRequest_loop c w method path body attempt lastErr result s = (lastErr, result, s)"
  by (simp add: doRequest_loop.simps)

lemma loop_success:
  "attempt < maxRetries c \<Longrightarrow>
   doRequestOnce c w method path body result s = (None, result1, s1) \<Longrightarrow>
   doRequest_loop c w method path body attempt lastErr result s
     = (None, result1, s1\<lparr>attempts := attempts s1 @ [None]\<rparr>)"
  by (simp add: doRequest_loop.simps)

lemma loop_fatal:
  "attempt < maxRetries c \<Longrightarrow>
   doRequestOnce c w method path body result s = (Some e, result1, s1) \<Longrightarrow>
   \<not> isRetryable e \<Longrightarrow>
   doRequest_loop c w method path body attempt lastErr result s
     = (Some e, result1, s1\<lparr>attempts := attempts s1 @ [Some e]\<rparr>)"
  by (simp add: doRequest_loop.simps)

lemma loop_cancel:
  "attempt < maxRetries c \<Longrightarrow>
   doRequestOnce c w method path body result s = (Some e, result1, s1) \<Longrightarrow>
   isRetryable e \<Longrightarrow> ctxDoneFirst w (length (timers s1)) (backoff attempt) \<Longrightarrow>
   doRequest_loop c w method path body attempt lastErr result s
     = (Some (ContextError (ctxErr w)), result1,
        s1\<lparr>attempts := attempts s1 @ [Some e],
           timers := timers s1 @ [(backoff attempt, True)]\<rparr>)"
  by (simp add: doRequest_loop.simps Let_def)

lemma loop_retry:
  "attempt < maxRetries c \<Longrightarrow>
   doRequestOnce c w method path body result s = (Some e, result1, s1) \<Longrightarrow>
   isRetryable e \<Longrightarrow> \<not> ctxDoneFirst w (length (timers s1)) (backoff attempt) \<Longrightarrow>
   doRequest_loop c w method path body attempt lastErr result s
     = doRequest_loop c w method path body (attempt + 1) (Some e) result1
        (s1\<lparr>attempts := attempts s1 @ [Some e],
            timers := timers s1 @ [(backoff attempt, False)]\<rparr>)"
  by (simp add: doRequest_loop.simps Let_def)

text \<open>
  The shape of every run of the loop: the outcomes \<open>as\<close> and the timers \<open>ts\<close> it logs.
  Only the last outcome can be other than a rate-limit or server error, only the last
  timer can lose against the context, the \<open>i\<close>-th timer is \<open>backoff (attempt + i)\<close>,
  and the value returned is the last outcome unless the context won the last wait.
\<close>

lemma loop_inv:
  "doRequest_loop c w method path body attempt lastErr result s = (r, result', s') \<Longrightarrow>
   \<exists>as ts. attempts s' = attempts s @ as \<and> timers s' = timers s @ ts
     \<and> int (length as) \<le> max 0 (maxRetries c - attempt)
     \<and> list_all retryableOutcome (butlast as)
     \<and> list_all (\<lambda>t. \<not> snd t) (butlast ts)
     \<and> map fst ts = map (\<lambda>i. backoff (attempt + int i)) [0..<length ts]
     \<and> length ts = length (filter retryableOutcome as)
     \<and> (as = [] \<longrightarrow> r = lastErr)
     \<and> (as \<noteq> [] \<longrightarrow>
           (if ts \<noteq> [] \<and> snd (last ts)
            then r = Some (ContextError (ctxErr w)) \<and> retryableOutcome (last as)
            else r = last as))"
proof (induction c w "method" "path" body attempt lastErr result s arbitrary: r result' s'
       rule: doRequest_loop.induct)
  case (1 c w verb route body attempt lastErr result s)
  show ?case
  proof (cases "attempt < maxRetries c")
    case False
    with "1.prems" have "r = lastErr" "s' = s" by (simp_all add: loop_exit)
    then show ?thesis by (intro exI[of _ "[]"]) simp
  next
    case True
    obtain err result1 s1 where once: "doRequestOnce c w verb route body result s = (err, result1, s1)"
      by (cases "doRequestOnce c w verb route body result s") auto
    have tr: "attempts s1 = attempts s" "timers s1 = timers s"
      using doRequestOnce_logs[OF once] by simp_all
    show ?thesis
    proof (cases err)
      case None
      have eq: "(r, result', s') = (None, result1, s1\<lparr>attempts := attempts s1 @ [None]\<rparr>)"
        using loop_success[OF True once[unfolded None], of lastErr] "1.prems" by simp
      with tr True show ?thesis
        by (intro exI[of _ "[None]"] exI[of _ "[]"]) simp
    next
      case (Some e)
      note once' = once[unfolded Some]
      show ?thesis
      proof (cases "isRetryable e")
        case False
        have eq: "(r, result', s') = (Some e, result1, s1\<lparr>attempts := attempts s1 @ [Some e]\<rparr>)"
          using loop_fatal[OF True once' False, of lastErr] "1.prems" by simp
        with tr True False show ?thesis
          by (intro exI[of _ "[Some e]"] exI[of _ "[]"]) simp
      next
        case retry: True
        show ?thesis
        proof (cases "ctxDoneFirst w (length (timers s1)) (backoff attempt)")
          case True
          have eq: "(r, result', s') = (Some (ContextError (ctxErr w)), result1,
              s1\<lparr>attempts := attempts s1 @ [Some e], timers := timers s1 @ [(backoff attempt, True)]\<rparr>)"
            using loop_cancel[OF \<open>attempt < maxRetries c\<close> once' retry True, of lastErr] "1.prems" by simp
          with tr \<open>attempt < maxRetries c\<close> retry show ?thesis
            by (intro exI[of _ "[Some e]"] exI[of _ "[(backoff attempt, True)]"]) simp
        next
          case False
          let ?s2 = "s1\<lparr>attempts := attempts s1 @ [Some e]\<rparr>"
          let ?s3 = "?s2\<lparr>timers := timers ?s2 @ [(backoff attempt, ctxDoneFirst w (length (timers ?s2)) (backoff attempt))]\<rparr>"
          have s3: "?s3 = s1\<lparr>attempts := attempts s1 @ [Some e], timers := timers s1 @ [(backoff attempt, False)]\<rparr>"
            using False by simp
          have rec: "doRequest_loop c w verb route body (attempt + 1) (Some e) result1 ?s3 = (r, result', s')"
            using loop_retry[OF \<open>attempt < maxRetries c\<close> once' retry False, of lastErr] "1.prems" s3 by simp
          have "\<exists>as ts. attempts s' = attempts ?s3 @ as \<and> timers s' = timers ?s3 @ ts
             \<and> int (length as) \<le> max 0 (maxRetries c - (attempt + 1))
             \<and> list_all retryableOutcome (butlast as)
             \<and> list_all (\<lambda>t. \<not> snd t) (butlast ts)
             \<and> map fst ts = map (\<lambda>i. backoff (attempt + 1 + int i)) [0..<length ts]
             \<and> length ts = length (filter retryableOutcome as)
             \<and> (as = [] \<longrightarrow> r = Some e)
             \<and> (as \<noteq> [] \<longrightarrow>
                   (if ts \<noteq> [] \<and> snd (last ts)
                    then r = Some (ContextError (ctxErr w)) \<and> retryableOutcome (last as)
                    else r = last as))"
            by (rule "1.IH"[OF \<open>attempt < maxRetries c\<close> once'[symmetric] refl refl refl retry refl refl refl _ rec])
               (use False in simp)
          then obtain as ts where IH:
            "attempts s' = attempts ?s3 @ as" "timers s' = timers ?s3 @ ts"
            "int (length as) \<le> max 0 (maxRetries c - (attempt + 1))"
            "list_all retryableOutcome (butlast as)"
            "list_all (\<lambda>t. \<not> snd t) (butlast ts)"
            "map fst ts = map (\<lambda>i. backoff (attempt + 1 + int i)) [0..<length ts]"
            "length ts = length (filter retryableOutcome as)"
            "as = [] \<longrightarrow> r = Some e"
            "as \<noteq> [] \<longrightarrow>
                   (if ts \<noteq> [] \<and> snd (last ts)
                    then r = Some (ContextError (ctxErr w)) \<and> retryableOutcome (last as)
                    else r = last as)"
            by blast
          have "map (\<lambda>i. backoff (attempt + int i)) [0..<Suc (length ts)]
                = backoff attempt # map (\<lambda>i. backoff (attempt + 1 + int i)) [0..<length ts]"
            by (simp add: upt_conv_Cons map_Suc_upt[symmetric] ac_simps del: upt_Suc)
          then have m: "map fst ((backoff attempt, False) # ts)
                 = map (\<lambda>i. backoff (attempt + int i)) [0..<length ((backoff attempt, False) # ts)]"
            using IH(6) by simp
          have a1: "attempts s' = attempts s @ (Some e # as)" using IH(1) tr by simp
          have a2: "timers s' = timers s @ ((backoff attempt, False) # ts)" using IH(2) tr False by simp
          have a3: "int (length (Some e # as)) \<le> max 0 (maxRetries c - attempt)"
            using IH(3) \<open>attempt < maxRetries c\<close> by simp
          have a4: "list_all retryableOutcome (butlast (Some e # as))" using IH(4) retry by simp
          have a5: "list_all (\<lambda>t. \<not> snd t) (butlast ((backoff attempt, False) # ts))" using IH(5) by simp
          have a6: "length ((backoff attempt, False) # ts) = length (filter retryableOutcome (Some e # as))"
            using IH(7) retry by simp
          have a7: "if (backoff attempt, False) # ts \<noteq> [] \<and> snd (last ((backoff attempt, False) # ts))
                    then r = Some (ContextError (ctxErr w)) \<and> retryableOutcome (last (Some e # as))
                    else r = last (Some e # as)"
          proof (cases "as = []")
            case True
            then have "ts = []" using IH(7) by simp
            with True IH(8) show ?thesis by simp
          next
            case False
            with IH(9) IH(7) show ?thesis by (cases "ts = []") auto
          qed
          show ?thesis
            by (intro exI[of _ "Some e # as"] exI[of _ "(backoff attempt, False) # ts"]
                  conjI impI a1 a2 a3 a4 a5 a6 a7 m) simp
        qed
      qed
    qed
  qed
qed

text \<open>The same run, read as a case distinction on what the first iteration did.\<close>

lemma loop_cases:
  assumes run: "doRequest_loop c w verb route body attempt lastErr result s = (r, result', s')"
  obtains
    (exit) "\<not> attempt < maxRetries c" "r = lastErr" "result' = result" "s' = s"
  | (stop) err s1 where "attempt < maxRetries c"
      "doRequestOnce c w verb route body result s = (err, result', s1)"
      "\<not> retryableOutcome err" "r = err" "s' = s1\<lparr>attempts := attempts s1 @ [err]\<rparr>"
  | (cancel) e s1 where "attempt < maxRetries c"
      "doRequestOnce c w verb route body result s = (Some e, result', s1)"
      "isRetryable e" "ctxDoneFirst w (length (timers s1)) (backoff attempt)"
      "r = Some (ContextError (ctxErr w))"
      "s' = s1\<lparr>attempts := attempts s1 @ [Some e],
                timers := timers s1 @ [(backoff attempt, True)]\<rparr>"
  | (retry) e result1 s1 where "attempt < maxRetries c"
      "doRequestOnce c w verb route body result s = (Some e, result1, s1)"
      "isRetryable e" "\<not> ctxDoneFirst w (length (timers s1)) (backoff attempt)"
      "doRequest_loop c w verb route body (attempt + 1) (Some e) result1
         (s1\<lparr>attempts := attempts s1 @ [Some e],
             timers := timers s1 @ [(backoff attempt, False)]\<rparr>) = (r, result', s')"
proof (cases "attempt < maxRetries c")
  case False
  with run exit show ?thesis by (simp add: loop_exit)
next
  case True
  obtain err result1 s1 where once: "doRequestOnce c w verb route body result s = (err, result1, s1)"
    by (cases "doRequestOnce c w verb route body result s") auto
  show ?thesis
  proof (cases err)
    case None
    note once' = once[unfolded None]
    have eq: "r = None" "result' = result1" "s' = s1\<lparr>attempts := attempts s1 @ [None]\<rparr>"
      using loop_success[OF True once', of lastErr] run by simp_all
    show ?thesis
      by (rule stop[of None s1]) (simp_all add: True once' eq)
  next
    case (Some e)
    note once' = once[unfolded Some]
    show ?thesis
    proof (cases "isRetryable e")
      case False
      have eq: "r = Some e" "result' = result1" "s' = s1\<lparr>attempts := attempts s1 @ [Some e]\<rparr>"
        using loop_fatal[OF True once' False, of lastErr] run by simp_all
      show ?thesis
        by (rule stop[of "Some e" s1]) (simp_all add: True once' eq False)
    next
      case again: True
      show ?thesis
      proof (cases "ctxDoneFirst w (length (timers s1)) (backoff attempt)")
        case True
        have eq: "r = Some (ContextError (ctxErr w))" "result' = result1"
          "s' = s1\<lparr>attempts := attempts s1 @ [Some e],
                timers := timers s1 @ [(backoff attempt, True)]\<rparr>"
          using loop_cancel[OF \<open>attempt < maxRetries c\<close> once' again True, of lastErr] run
          by simp_all
        show ?thesis
          by (rule cancel[of e s1]) (simp_all add: \<open>attempt < maxRetries c\<close> once' eq again True)
      next
        case False
        have eq: "doRequest_loop c w verb route body (attempt + 1) (Some e) result1
         (s1\<lparr>attempts := attempts s1 @ [Some e],
             timers := timers s1 @ [(backoff attempt, False)]\<rparr>) = (r, result', s')"
          using loop_retry[OF \<open>attempt < maxRetries c\<close> once' again False, of lastErr] run
          by simp
        show ?thesis
          by (rule retry[of e result1 s1]) (simp_all add: \<open>attempt < maxRetries c\<close> once' eq again False)
      qed
    qed
  qed
qed

text \<open>Every request the loop hands to the transport is the one \<open>doRequestOnce\<close> builds.\<close>

lemma doRequestOnce_sent:
  assumes "doRequestOnce c w verb route body result s = (err, result1, s1)"
  shows "\<exists>qs. sent s1 = sent s @ qs \<and> length qs \<le> 1
           \<and> (\<forall>q\<in>set qs. marshalBody w body = Inr (Body q)
                  \<and> q = buildRequest c verb (baseURL c @ route) (Body q))"
  using assms
  by (auto simp: doRequestOnce_def Let_def buildRequest_def
           split: sum.splits option.splits prod.splits)

lemma loop_sent:
  "doRequest_loop c w verb route body attempt lastErr result s = (r, result', s') \<Longrightarrow>
   \<exists>qs. sent s' = sent s @ qs
        \<and> (\<forall>q\<in>set qs. marshalBody w body = Inr (Body q)
               \<and> q = buildRequest c verb (baseURL c @ route) (Body q))"
proof (induction n \<equiv> "nat (maxRetries c - attempt)" arbitrary: attempt lastErr result s)
  case 0
  then have "\<not> attempt < maxRetries c" by simp
  with "0.prems" have "s' = s" by (simp add: loop_exit)
  then show ?case by simp
next
  case (Suc n)
  from Suc.prems show ?case
  proof (cases rule: loop_cases)
    case exit
    then show ?thesis by simp
  next
    case (stop err s1)
    with doRequestOnce_sent[OF stop(2)] show ?thesis by auto
  next
    case (cancel e s1)
    with doRequestOnce_sent[OF cancel(2)] show ?thesis by auto
  next
    case (retry e result1 s1)
    let ?s3 = "s1\<lparr>attempts := attempts s1 @ [Some e],
             timers := timers s1 @ [(backoff attempt, False)]\<rparr>"
    have "n = nat (maxRetries c - (attempt + 1))" using Suc.hyps(2) by simp
    from Suc.hyps(1)[OF this retry(5)]
    obtain qs where qs: "sent s' = sent ?s3 @ qs"
      "\<forall>q\<in>set qs. marshalBody w body = Inr (Body q)
               \<and> q = buildRequest c verb (baseURL c @ route) (Body q)" by blast
    from doRequestOnce_sent[OF retry(2)]
    obtain q0 where q0: "sent s1 = sent s @ q0"
      "\<forall>q\<in>set q0. marshalBody w body = Inr (Body q)
               \<and> q = buildRequest c verb (baseURL c @ route) (Body q)" by blast
    have "sent s' = sent s @ (q0 @ qs)" using qs(1) q0(1) by simp
    moreover have "\<forall>q\<in>set (q0 @ qs). marshalBody w body = Inr (Body q)
               \<and> q = buildRequest c verb (baseURL c @ route) (Body q)"
      using qs(2) q0(2) by auto
    ultimately show ?thesis by blast
  qed
qed

lemma attemptsOf_append: "attempts s' = attempts s @ as \<Longrightarrow> attemptsOf s s' = as"
  by (simp add: attemptsOf_def)

lemma timersOf_append: "timers s' = timers s @ ts \<Longrightarrow> timersOf s s' = ts"
  by (simp add: timersOf_def)

lemma sentOf_append: "sent s' = sent s @ qs \<Longrightarrow> sentOf s s' = qs"
  by (simp add: sentOf_def)

text \<open>The shape of a run, for \<open>doRequest\<close> itself.\<close>

lemma doRequest_inv:
  assumes run: "doRequest c w verb route body result s = (r, result', s')"
  shows "int (length (attemptsOf s s')) \<le> max 0 (maxRetries c)
     \<and> list_all retryableOutcome (butlast (attemptsOf s s'))
     \<and> list_all (\<lambda>t. \<not> snd t) (butlast (timersOf s s'))
     \<and> map fst (timersOf s s') = map (\<lambda>i. backoff (int i)) [0..<length (timersOf s s')]
     \<and> length (timersOf s s') = length (filter retryableOutcome (attemptsOf s s'))
     \<and> (attemptsOf s s' = [] \<longrightarrow> r = None)
     \<and> (attemptsOf s s' \<noteq> [] \<longrightarrow>
           (if timersOf s s' \<noteq> [] \<and> snd (last (timersOf s s'))
            then r = Some (ContextError (ctxErr w)) \<and> retryableOutcome (last (attemptsOf s s'))
            else r = last (attemptsOf s s')))"
proof -
  from loop_inv[OF run[unfolded doRequest_def]]
  obtain as ts where *: "attempts s' = attempts s @ as" "timers s' = timers s @ ts"
     "int (length as) \<le> max 0 (maxRetries c - 0)"
     "list_all retryableOutcome (butlast as)"
     "list_all (\<lambda>t. \<not> snd t) (butlast ts)"
     "map fst ts = map (\<lambda>i. backoff (0 + int i)) [0..<length ts]"
     "length ts = length (filter retryableOutcome as)"
     "as = [] \<longrightarrow> r = None"
     "as \<noteq> [] \<longrightarrow>
           (if ts \<noteq> [] \<and> snd (last ts)
            then r = Some (ContextError (ctxErr w)) \<and> retryableOutcome (last as)
            else r = last as)"
    by blast
  show ?thesis
    unfolding attemptsOf_append[OF *(1)] timersOf_append[OF *(2)]
    using *(3-9) by simp
qed

section \<open>Evaluating concrete runs\<close>

lemmas run_simps = doRequest_def doRequest_loop.simps doRequestOnce_def handleResponse_def
  marshalBody_def buildRequest_def stubWorld_def stubResponse_def alwaysStatus_def refused_def
  never_def atWait_def emptyTrace_def NewClient_def DefaultMaxRetries_def DefaultBaseURL_def
  WithMaxRetries_def headerGet_def detailOr_def mapIndex_def assertString_def assertMap_def
  NewServerError_def NewRateLimitError_def NewAuthenticationError_def NewNotFoundError_def
  NewValidationError_def Let_def backoff_def Second_def Version_def
  attemptsOf_def timersOf_def sentOf_def

lemma showInt_503: "showInt 503 = ''503''"
  by (simp add: showInt_def digitChar_def)




lemma run_get_200:
  "doRequest (NewClient ''key'' []) (stubWorld (alwaysStatus 200) never :: (unit, unit) world)
     ''GET'' ''/api/v1/identity/abc'' None (Some ()) emptyTrace
   = (None, Some (),
      \<lparr>sent = [buildRequest (NewClient ''key'' []) ''GET''
                 ''https://api.actorhub.ai/api/v1/identity/abc'' None],
       attempts = [None], timers = []\<rparr>)"
  by (simp add: run_simps)


section \<open>Classification of responses\<close>

text \<open>
  Claim C1, as the code has it. When the body has been read and the decoded error body
  has no \<open>detail\<close> entry, \<open>handleResponse\<close> returns the typed error of the status with
  its default message: 401 gives an \<open>AuthenticationError\<close> saying
  "Invalid or missing API key", 404 a \<open>NotFoundError\<close> saying "Resource not found",
  422 a \<open>ValidationError\<close> saying "Validation error", 429 a \<open>RateLimitError\<close> saying
  "Rate limit exceeded", and any status from 500 on a \<open>ServerError\<close> saying
  "Server error: " followed by the status in decimal.
\<close>

theorem handleResponse_default_messages:
  assumes body: "RespBody resp = Inr respBody"
      and nodetail: "mapIndex (jsonUnmarshalMap w respBody) ''detail'' = None"
  shows "(RespStatusCode resp = 401 \<longrightarrow>
            fst (handleResponse w resp result) =
              Some (AuthenticationError
                     \<lparr>Message = ''Invalid or missing API key'', StatusCode = 401,
                      ResponseData = None,
                      RequestID = headerGet (RespHeader resp) ''X-Request-ID''\<rparr>))
       \<and> (RespStatusCode resp = 404 \<longrightarrow>
            fst (handleResponse w resp result) =
              Some (NotFoundError
                     \<lparr>Message = ''Resource not found'', StatusCode = 404,
                      ResponseData = None,
                      RequestID = headerGet (RespHeader resp) ''X-Request-ID''\<rparr>))
       \<and> (RespStatusCode resp = 422 \<longrightarrow>
            fst (handleResponse w resp result) =
              Some (ValidationError
                     \<lparr>Message = ''Validation error'', StatusCode = 422,
                      ResponseData = None,
                      RequestID = headerGet (RespHeader resp) ''X-Request-ID''\<rparr>
                     (assertMap (mapIndex (jsonUnmarshalMap w respBody) ''errors''))))
       \<and> (RespStatusCode resp = 429 \<longrightarrow>
            fst (handleResponse w resp result) =
              Some (RateLimitError
                     \<lparr>Message = ''Rate limit exceeded'', StatusCode = 429,
                      ResponseData = None,
                      RequestID = headerGet (RespHeader resp) ''X-Request-ID''\<rparr>
                     (if headerGet (RespHeader resp) ''Retry-After'' \<noteq> []
                      then fst (atoi w (headerGet (RespHeader resp) ''Retry-After'')) else 0)))
       \<and> (RespStatusCode resp \<ge> 500 \<longrightarrow>
            fst (handleResponse w resp result) =
              Some (ServerError
                     \<lparr>Message = ''Server error: '' @ showInt (RespStatusCode resp),
                      StatusCode = RespStatusCode resp, ResponseData = None,
                      RequestID = headerGet (RespHeader resp) ''X-Request-ID''\<rparr>))"
proof -
  have d: "\<And>dflt. detailOr (jsonUnmarshalMap w respBody) dflt = dflt"
    using nodetail by (simp add: detailOr_def assertString_def)
  show ?thesis
    using body
    by (simp add: handleResponse_def Let_def d NewAuthenticationError_def NewNotFoundError_def
        NewValidationError_def NewRateLimitError_def NewServerError_def)
qed

theorem handleResponse_default_messages_witness:
  "fst (handleResponse (stubWorld refused never :: (unit, unit) world)
          (stubResponse 401 []) None)
     = Some (AuthenticationError \<lparr>Message = ''Invalid or missing API key'', StatusCode = 401,
               ResponseData = None, RequestID = []\<rparr>)
   \<and> fst (handleResponse (stubWorld refused never :: (unit, unit) world)
          (stubResponse 404 []) None)
     = Some (NotFoundError \<lparr>Message = ''Resource not found'', StatusCode = 404,
               ResponseData = None, RequestID = []\<rparr>)
   \<and> fst (handleResponse (stubWorld refused never :: (unit, unit) world)
          (stubResponse 422 []) None)
     = Some (ValidationError \<lparr>Message = ''Validation error'', StatusCode = 422,
               ResponseData = None, RequestID = []\<rparr> None)
   \<and> fst (handleResponse (stubWorld refused never :: (unit, unit) world)
          (stubResponse 429 []) None)
     = Some (RateLimitError \<lparr>Message = ''Rate limit exceeded'', StatusCode = 429,
               ResponseData = None, RequestID = []\<rparr> 0)
   \<and> fst (handleResponse (stubWorld refused never :: (unit, unit) world)
          (stubResponse 503 []) None)
     = Some (ServerError \<lparr>Message = ''Server error: 503'', StatusCode = 503,
               ResponseData = None, RequestID = []\<rparr>)"
proof -
  let ?w = "stubWorld refused never :: (unit, unit) world"
  have b: "\<And>st. RespBody (stubResponse st []) = Inr []" by (simp add: stubResponse_def)
  have n: "mapIndex (jsonUnmarshalMap ?w []) ''detail'' = None"
    by (simp add: stubWorld_def mapIndex_def)
  show ?thesis
    using handleResponse_default_messages[OF b n, of 401 None]
          handleResponse_default_messages[OF b n, of 404 None]
          handleResponse_default_messages[OF b n, of 422 None]
          handleResponse_default_messages[OF b n, of 429 None]
          handleResponse_default_messages[OF b n, of 503 None]
    by (simp add: stubResponse_def stubWorld_def headerGet_def mapIndex_def assertMap_def
          showInt_503)
qed

text \<open>
  Claim C1 as stated names "Invalid or missing credential" as the default of 401. On a
  401 response with an empty body the message is "Invalid or missing API key".
\<close>

theorem default_401_message_counterexample:
  "fst (handleResponse (stubWorld refused never :: (unit, unit) world)
          (stubResponse 401 []) None)
     = Some (AuthenticationError \<lparr>Message = ''Invalid or missing API key'', StatusCode = 401,
               ResponseData = None, RequestID = []\<rparr>)
   \<and> fst (handleResponse (stubWorld refused never :: (unit, unit) world)
          (stubResponse 401 []) None)
     \<noteq> Some (AuthenticationError \<lparr>Message = ''Invalid or missing credential'', StatusCode = 401,
               ResponseData = None, RequestID = []\<rparr>)"
  by (simp add: handleResponse_def stubResponse_def stubWorld_def headerGet_def Let_def
        detailOr_def mapIndex_def assertString_def NewAuthenticationError_def)

section \<open>The retry loop\<close>




text \<open>
  The wait before attempt \<open>n\<close> is \<open>backoff (n - 1)\<close>, a function of the loop counter
  alone, and for counters up to 33 it is the smaller of \<open>2 ^ (n - 1)\<close> and 10 seconds.
\<close>

lemma doRequest_waits_are_backoff:
  assumes run: "doRequest c w verb route body result s = (r, result', s')"
      and i: "i < length (timersOf s s')"
  shows "fst (timersOf s s' ! i) = backoff (int i)"
proof -
  have "map fst (timersOf s s') = map (\<lambda>i. backoff (int i)) [0..<length (timersOf s s')]"
    using doRequest_inv[OF run] by blast
  then have "map fst (timersOf s s') ! i = map (\<lambda>i. backoff (int i)) [0..<length (timersOf s s')] ! i"
    by simp
  with i show ?thesis by simp
qed

lemma backoff_in_range:
  assumes "0 \<le> a" and "a \<le> 33"
  shows "sint (backoff a) = min (2 ^ nat a) 10 * 1000000000"
proof -
  from assms have "a = 0 \<or> a = 1 \<or> a = 2 \<or> a = 3 \<or> a = 4 \<or> a = 5 \<or> a = 6 \<or> a = 7 \<or> a = 8 \<or> a = 9 \<or> a = 10 \<or> a = 11 \<or> a = 12 \<or> a = 13 \<or> a = 14 \<or> a = 15 \<or> a = 16 \<or> a = 17 \<or> a = 18 \<or> a = 19 \<or> a = 20 \<or> a = 21 \<or> a = 22 \<or> a = 23 \<or> a = 24 \<or> a = 25 \<or> a = 26 \<or> a = 27 \<or> a = 28 \<or> a = 29 \<or> a = 30 \<or> a = 31 \<or> a = 32 \<or> a = 33" by arith
  then show ?thesis
    by (elim disjE) (simp_all add: backoff_def Second_def Let_def)
qed

lemma backoff_wraps_at_attempt_34:
  "sint (backoff 34) = - 1266874889709551616 \<and> backoff 34 \<noteq> 10 * Second"
  by (simp add: backoff_def Second_def Let_def)

text \<open>
  The value stored as \<open>RetryAfter\<close> is whatever \<open>strconv.Atoi\<close> returns, its error
  dropped: for a header beyond the range of \<open>int\<close> that is the largest \<open>int\<close>, not 0.
\<close>

lemma retry_after_out_of_range:
  "fst (handleResponse ((stubWorld refused never :: (unit, unit) world)\<lparr>atoi := saturatedAtoi\<rparr>)
          \<lparr>RespStatusCode = 429,
           RespHeader = Map.empty(''Retry-After'' \<mapsto> ''99999999999999999999''),
           RespBody = Inr []\<rparr> None)
     = Some (RateLimitError \<lparr>Message = ''Rate limit exceeded'', StatusCode = 429,
               ResponseData = None, RequestID = []\<rparr> 9223372036854775807)"
  by (simp add: handleResponse_def stubWorld_def saturatedAtoi_def headerGet_def Let_def
        detailOr_def mapIndex_def assertString_def NewRateLimitError_def)

text \<open>
  Claim C3 at a failing input. A client with \<open>maxRetries = 36\<close> meets a server that
  answers 503 to the first 35 requests and 200 to the next one. The call makes 36
  attempts and arms 35 timers, one between each attempt and the next, and ends with
  the successful attempt. The timer with index 34 is the wait before attempt \<open>n = 35\<close>
  (the 36th request): it holds a negative duration, because \<open>2 ^ 34\<close> times \<open>10 ^ 9\<close>
  nanoseconds does not fit an \<open>int64\<close> and the cap compares the wrapped value; the claim
  puts that wait at ten seconds.
\<close>

theorem backoff_wraps_before_attempt_35:
  "fst (doRequest (NewClient ''key'' [WithMaxRetries 36])
         (stubWorld (failsThenOk 35) never :: (unit, unit) world)
         ''GET'' ''/api/v1/identity/abc'' None None emptyTrace) = None
   \<and> length (attemptsOf emptyTrace (snd (snd (doRequest (NewClient ''key'' [WithMaxRetries 36])
         (stubWorld (failsThenOk 35) never :: (unit, unit) world)
         ''GET'' ''/api/v1/identity/abc'' None None emptyTrace)))) = 36
   \<and> length (timersOf emptyTrace (snd (snd (doRequest (NewClient ''key'' [WithMaxRetries 36])
         (stubWorld (failsThenOk 35) never :: (unit, unit) world)
         ''GET'' ''/api/v1/identity/abc'' None None emptyTrace)))) = 35
   \<and> sint (fst (timersOf emptyTrace (snd (snd (doRequest (NewClient ''key'' [WithMaxRetries 36])
         (stubWorld (failsThenOk 35) never :: (unit, unit) world)
         ''GET'' ''/api/v1/identity/abc'' None None emptyTrace))) ! 34)) = - 1266874889709551616
   \<and> sint (fst (timersOf emptyTrace (snd (snd (doRequest (NewClient ''key'' [WithMaxRetries 36])
         (stubWorld (failsThenOk 35) never :: (unit, unit) world)
         ''GET'' ''/api/v1/identity/abc'' None None emptyTrace))) ! 34)) \<noteq> 10 * 1000000000"
proof -
  obtain r d s' where run:
    "doRequest (NewClient ''key'' [WithMaxRetries 36])
         (stubWorld (failsThenOk 35) never :: (unit, unit) world)
         ''GET'' ''/api/v1/identity/abc'' None None emptyTrace = (r, d, s')"
    by (metis prod_cases3)
  have "r = None \<and> length (attemptsOf emptyTrace s') = 36
      \<and> length (timersOf emptyTrace s') = 35
      \<and> sint (fst (timersOf emptyTrace s' ! 34)) = - 1266874889709551616"
    using run by (auto simp add: run_simps showInt_503 failsThenOk_def)
  then show ?thesis unfolding run by simp
qed



text \<open>With \<open>maxRetries\<close> at or below zero the loop body never runs.\<close>

lemma doRequest_no_attempt:
  "maxRetries c \<le> 0 \<Longrightarrow> doRequest c w verb route body result s = (None, result, s)"
  by (simp add: doRequest_def loop_exit)

text \<open>
  Claim C5 at a failing input. A client built with \<open>WithMaxRetries 0\<close> and asked for
  an identity returns \<open>nil\<close> with the destination untouched and an empty trace: no
  request was sent and no attempt was made.
\<close>

theorem doRequest_maxRetries_zero_no_attempt:
  "doRequest (NewClient ''key'' [WithMaxRetries 0])
     (stubWorld (alwaysStatus 200) never :: (unit, unit) world)
     ''GET'' ''/api/v1/identity/abc'' None (Some ()) emptyTrace
   = (None, Some (), emptyTrace)"
  by (simp add: doRequest_def NewClient_def WithMaxRetries_def loop_exit)

text \<open>
  Claim C6. Whenever the loop starts an iteration (\<open>attempt < maxRetries\<close>), whatever the
  counter, the previous error and the trace so far: if marshalling the payload fails,
  or the transport fails, or a success body with a destination fails to decode, the
  loop returns that error at once. The trace gains exactly this attempt, no timer and
  no further request. \<open>doRequest\<close> is the loop entered with counter 0.
\<close>

theorem fatal_failures_returned_at_once:
  assumes more: "attempt < maxRetries c"
  shows
   "(\<forall>b e. body = Some b \<and> jsonMarshal w b = Inl e \<longrightarrow>
       doRequest_loop c w verb route body attempt lastErr result s =
         (Some (Errorf ''failed to marshal request body'' e), result,
          s\<lparr>attempts := attempts s @ [Some (Errorf ''failed to marshal request body'' e)]\<rparr>))
    \<and> (\<forall>reqBody e. marshalBody w body = Inr reqBody
          \<and> newRequestErr w verb (baseURL c @ route) = None
          \<and> httpDo w (length (sent s)) (buildRequest c verb (baseURL c @ route) reqBody) = Inl e
        \<longrightarrow>
       doRequest_loop c w verb route body attempt lastErr result s =
         (Some (Errorf ''failed to send request'' e), result,
          s\<lparr>sent := sent s @ [buildRequest c verb (baseURL c @ route) reqBody],
            attempts := attempts s @ [Some (Errorf ''failed to send request'' e)]\<rparr>))
    \<and> (\<forall>reqBody resp bytes v e v'. marshalBody w body = Inr reqBody
          \<and> newRequestErr w verb (baseURL c @ route) = None
          \<and> httpDo w (length (sent s)) (buildRequest c verb (baseURL c @ route) reqBody) = Inr resp
          \<and> RespStatusCode resp < 400 \<and> RespBody resp = Inr bytes \<and> bytes \<noteq> []
          \<and> result = Some v \<and> jsonUnmarshal w bytes v = (Some e, v')
        \<longrightarrow>
       doRequest_loop c w verb route body attempt lastErr result s =
         (Some (Errorf ''failed to unmarshal response'' e), Some v',
          s\<lparr>sent := sent s @ [buildRequest c verb (baseURL c @ route) reqBody],
            attempts := attempts s @ [Some (Errorf ''failed to unmarshal response'' e)]\<rparr>))"
proof (intro conjI allI impI)
  fix b e
  assume h: "body = Some b \<and> jsonMarshal w b = Inl e"
  then have once: "doRequestOnce c w verb route body result s
      = (Some (Errorf ''failed to marshal request body'' e), result, s)"
    by (simp add: doRequestOnce_def marshalBody_def)
  show "doRequest_loop c w verb route body attempt lastErr result s =
         (Some (Errorf ''failed to marshal request body'' e), result,
          s\<lparr>attempts := attempts s @ [Some (Errorf ''failed to marshal request body'' e)]\<rparr>)"
    using loop_fatal[OF more once] by simp
next
  fix reqBody e
  assume h: "marshalBody w body = Inr reqBody
          \<and> newRequestErr w verb (baseURL c @ route) = None
          \<and> httpDo w (length (sent s)) (buildRequest c verb (baseURL c @ route) reqBody) = Inl e"
  then have once: "doRequestOnce c w verb route body result s
      = (Some (Errorf ''failed to send request'' e), result,
         s\<lparr>sent := sent s @ [buildRequest c verb (baseURL c @ route) reqBody]\<rparr>)"
    by (simp add: doRequestOnce_def Let_def)
  show "doRequest_loop c w verb route body attempt lastErr result s =
         (Some (Errorf ''failed to send request'' e), result,
          s\<lparr>sent := sent s @ [buildRequest c verb (baseURL c @ route) reqBody],
            attempts := attempts s @ [Some (Errorf ''failed to send request'' e)]\<rparr>)"
    using loop_fatal[OF more once] by simp
next
  fix reqBody resp bytes v e v'
  assume h: "marshalBody w body = Inr reqBody
          \<and> newRequestErr w verb (baseURL c @ route) = None
          \<and> httpDo w (length (sent s)) (buildRequest c verb (baseURL c @ route) reqBody) = Inr resp
          \<and> RespStatusCode resp < 400 \<and> RespBody resp = Inr bytes \<and> bytes \<noteq> []
          \<and> result = Some v \<and> jsonUnmarshal w bytes v = (Some e, v')"
  then have hr: "handleResponse w resp result
      = (Some (Errorf ''failed to unmarshal response'' e), Some v')"
    by (simp add: handleResponse_def Let_def)
  with h have once: "doRequestOnce c w verb route body result s
      = (Some (Errorf ''failed to unmarshal response'' e), Some v',
         s\<lparr>sent := sent s @ [buildRequest c verb (baseURL c @ route) reqBody]\<rparr>)"
    by (simp add: doRequestOnce_def Let_def)
  show "doRequest_loop c w verb route body attempt lastErr result s =
         (Some (Errorf ''failed to unmarshal response'' e), Some v',
          s\<lparr>sent := sent s @ [buildRequest c verb (baseURL c @ route) reqBody],
            attempts := attempts s @ [Some (Errorf ''failed to unmarshal response'' e)]\<rparr>)"
    using loop_fatal[OF more once] by simp
qed

theorem fatal_failures_returned_at_once_witness:
  "doRequest (NewClient ''key'' [])
      ((stubWorld refused never :: (unit, unit) world)\<lparr>jsonMarshal := failingMarshal\<rparr>)
      ''POST'' ''/api/v1/identity/verify'' (Some ()) None emptyTrace
    = (Some (Errorf ''failed to marshal request body'' ''json: unsupported value: NaN''), None,
       \<lparr>sent = [],
        attempts = [Some (Errorf ''failed to marshal request body''
                      ''json: unsupported value: NaN'')],
        timers = []\<rparr>)
   \<and> doRequest (NewClient ''key'' []) (stubWorld refused never :: (unit, unit) world)
      ''GET'' ''/api/v1/identity/abc'' None None emptyTrace
    = (Some (Errorf ''failed to send request'' ''connection refused''), None,
       \<lparr>sent = [buildRequest (NewClient ''key'' []) ''GET''
                 ''https://api.actorhub.ai/api/v1/identity/abc'' None],
        attempts = [Some (Errorf ''failed to send request'' ''connection refused'')],
        timers = []\<rparr>)
   \<and> doRequest (NewClient ''key'' [])
      ((stubWorld okBody never :: (unit, unit) world)\<lparr>jsonUnmarshal := failingUnmarshal\<rparr>)
      ''GET'' ''/api/v1/identity/abc'' None (Some ()) emptyTrace
    = (Some (Errorf ''failed to unmarshal response'' ''unexpected end of JSON input''), Some (),
       \<lparr>sent = [buildRequest (NewClient ''key'' []) ''GET''
                 ''https://api.actorhub.ai/api/v1/identity/abc'' None],
        attempts = [Some (Errorf ''failed to unmarshal response''
                      ''unexpected end of JSON input'')],
        timers = []\<rparr>)"
proof -
  have more: "0 < maxRetries (NewClient ''key'' [])"
    by (simp add: NewClient_def DefaultMaxRetries_def)
  note t = fatal_failures_returned_at_once[OF more]
  show ?thesis
    using t[where w = "(stubWorld refused never :: (unit, unit) world)\<lparr>jsonMarshal := failingMarshal\<rparr>"
             and body = "Some ()" and verb = "''POST''" and route = "''/api/v1/identity/verify''"
             and result = None and lastErr = None and s = emptyTrace]
          t[where w = "stubWorld refused never :: (unit, unit) world"
             and body = None and verb = "''GET''" and route = "''/api/v1/identity/abc''"
             and result = None and lastErr = None and s = emptyTrace]
          t[where w = "(stubWorld okBody never :: (unit, unit) world)\<lparr>jsonUnmarshal := failingUnmarshal\<rparr>"
             and body = None and verb = "''GET''" and route = "''/api/v1/identity/abc''"
             and result = "Some ()" and lastErr = None and s = emptyTrace]
    by (simp add: doRequest_def stubWorld_def failingMarshal_def failingUnmarshal_def
          refused_def okBody_def stubResponse_def marshalBody_def emptyTrace_def
          NewClient_def DefaultBaseURL_def)
qed

section \<open>Success with an empty body\<close>

text \<open>
  Claim C7. A response with a status below 400 and an empty body, handled with a
  destination that is not \<open>nil\<close>, reports success and leaves the destination as it was.
\<close>

theorem handleResponse_empty_success:
  assumes "RespStatusCode resp < 400" and "RespBody resp = Inr []"
  shows "handleResponse w resp (Some v) = (None, Some v)"
  using assms by (simp add: handleResponse_def Let_def)

theorem handleResponse_empty_success_witness:
  "RespStatusCode (stubResponse 204 []) < 400 \<and> RespBody (stubResponse 204 []) = Inr []
   \<and> handleResponse (stubWorld refused never :: (unit, string) world)
        (stubResponse 204 []) (Some ''kept'') = (None, Some ''kept'')"
proof -
  have h1: "RespStatusCode (stubResponse 204 []) < 400" by (simp add: stubResponse_def)
  have h2: "RespBody (stubResponse 204 []) = Inr []" by (simp add: stubResponse_def)
  show ?thesis
    using h1 h2 handleResponse_empty_success[OF h1 h2] by simp
qed

section \<open>The wrappers\<close>

text \<open>
  Claim C8. \<open>Verify\<close> on a request with empty \<open>ImageURL\<close> and empty \<open>ImageBase64\<close>
  returns a \<open>ValidationError\<close> and the trace it was given, so nothing was sent; so does
  \<open>CheckConsent\<close> on a request with empty \<open>ImageURL\<close>, empty \<open>ImageBase64\<close> and empty
  \<open>FaceEmbedding\<close>.
\<close>

theorem local_validation_without_network:
  "(VerifyRequest.ImageURL vreq = [] \<and> VerifyRequest.ImageBase64 vreq = [] \<longrightarrow>
      Verify c w zero vreq s =
        (None,
         Some (ValidationError
                 \<lparr>Message = ''Must provide image_url or image_base64'', StatusCode = 422,
                  ResponseData = None, RequestID = []\<rparr> None),
         s))
   \<and> (ConsentCheckRequest.ImageURL creq = [] \<and> ConsentCheckRequest.ImageBase64 creq = []
        \<and> FaceEmbedding creq = [] \<longrightarrow>
      CheckConsent c w' zero' creq s =
        (None,
         Some (ValidationError
                 \<lparr>Message = ''Must provide image_url, image_base64, or face_embedding'',
                  StatusCode = 422, ResponseData = None, RequestID = []\<rparr> None),
         s))"
  by (simp add: Verify_def CheckConsent_def NewValidationError_def)

theorem local_validation_without_network_witness:
  "Verify (NewClient ''key'' []) (stubWorld (alwaysStatus 200) never) ()
      \<lparr>VerifyRequest.ImageURL = [], VerifyRequest.ImageBase64 = [], IncludeLicenseOptions = True\<rparr> emptyTrace
    = (None,
       Some (ValidationError
               \<lparr>Message = ''Must provide image_url or image_base64'', StatusCode = 422,
                ResponseData = None, RequestID = []\<rparr> None),
       emptyTrace)
   \<and> CheckConsent (NewClient ''key'' []) (stubWorld (alwaysStatus 200) never) ()
      \<lparr>ImageURL = [], ImageBase64 = [], FaceEmbedding = [], Platform = ''runway'',
       IntendedUse = ''video'', Region = []\<rparr> emptyTrace
    = (None,
       Some (ValidationError
               \<lparr>Message = ''Must provide image_url, image_base64, or face_embedding'',
                StatusCode = 422, ResponseData = None, RequestID = []\<rparr> None),
       emptyTrace)"
  using local_validation_without_network[where
      vreq = "\<lparr>VerifyRequest.ImageURL = [], VerifyRequest.ImageBase64 = [], IncludeLicenseOptions = True\<rparr>"
      and creq = "\<lparr>ImageURL = [], ImageBase64 = [], FaceEmbedding = [], Platform = ''runway'',
       IntendedUse = ''video'', Region = []\<rparr>"
      and c = "NewClient ''key'' []" and s = emptyTrace and zero = "()" and zero' = "()"
      and w = "stubWorld (alwaysStatus 200) never" and w' = "stubWorld (alwaysStatus 200) never"]
  by simp

text \<open>
  Claim C9, as the code has it. Every request a call of \<open>doRequest\<close> sends carries
  \<open>Content-Type: application/json\<close>, whether or not it has a body.
\<close>

theorem every_request_has_content_type:
  assumes run: "doRequest c w verb route body result s = (r, result', s')"
  shows "\<forall>q \<in> set (sentOf s s'). Header q ''Content-Type'' = Some ''application/json''"
proof -
  from loop_sent[OF run[unfolded doRequest_def]]
  obtain qs where qs: "sent s' = sent s @ qs"
    "\<forall>q\<in>set qs. marshalBody w body = Inr (Body q)
        \<and> q = buildRequest c verb (baseURL c @ route) (Body q)" by blast
  have "Header q ''Content-Type'' = Some ''application/json''" if "q \<in> set qs" for q
  proof -
    from qs(2) that have "q = buildRequest c verb (baseURL c @ route) (Body q)" by blast
    then have "Header q = Header (buildRequest c verb (baseURL c @ route) (Body q))" by simp
    then show ?thesis by (simp add: buildRequest_def)
  qed
  then show ?thesis unfolding sentOf_append[OF qs(1)] by blast
qed

theorem every_request_has_content_type_witness:
  "Header (hd (sentOf emptyTrace (snd (snd
      (doRequest (NewClient ''key'' []) (stubWorld (alwaysStatus 200) never :: (unit, unit) world)
         ''GET'' ''/api/v1/identity/abc'' None (Some ()) emptyTrace))))) ''Content-Type''
    = Some ''application/json''"
  unfolding run_get_200
  using every_request_has_content_type[OF run_get_200]
  by (simp add: sentOf_def emptyTrace_def)

text \<open>
  Claim C9 as stated leaves the header out when there is no payload. The request of a
  \<open>GET\<close> without payload has no body and carries the header.
\<close>

theorem content_type_without_body_counterexample:
  "Body (hd (sent (snd (snd
      (doRequest (NewClient ''key'' []) (stubWorld (alwaysStatus 200) never :: (unit, unit) world)
         ''GET'' ''/api/v1/identity/abc'' None (Some ()) emptyTrace))))) = None
   \<and> Header (hd (sent (snd (snd
      (doRequest (NewClient ''key'' []) (stubWorld (alwaysStatus 200) never :: (unit, unit) world)
         ''GET'' ''/api/v1/identity/abc'' None (Some ()) emptyTrace))))) ''Content-Type''
    = Some ''application/json''"
  by (simp add: run_get_200 buildRequest_def)



end
